theory Spec2Isabelle
  imports Complex_Main "HOL-Library.Multiset"
begin

section \<open>The meshlet generator of Tools/generate_meshlets.py\<close>

text \<open>
  The source is one function:
  \<^verbatim>\<open>
  def generate_meshlets(vertices, indices, max_vertices=64, max_triangles=126):
      meshlets = []
      print(f"OMNI Build Tool: Generating meshlets for {len(vertices)} vertices and {len(indices)} indices...")
      dummy_meshlet = {
          "vertices": vertices[:max_vertices].tolist(),
          "indices": indices[:max_triangles * 3].tolist(),
          "cone": [0, 1, 0, 0.5]
      }
      meshlets.append(dummy_meshlet)
      return meshlets
  \<close>
  \<open>vertices\<close> is a two-dimensional array of floats (one row per vertex), \<open>indices\<close> a
  one-dimensional array of integers, and the two caps are Python integers, hence unbounded
  and possibly negative.
\<close>

subsection \<open>Data\<close>

text \<open>
  A vertex is a row of the vertex buffer. The rows hold float64 values; they are modelled as
  reals. The function never computes with them: rows are only copied.
\<close>

type_synonym vertex = "real list"

text \<open>
  The dictionary literal has the three fixed keys \<open>"vertices"\<close>, \<open>"indices"\<close> and
  \<open>"cone"\<close>, and no other key is ever added.
\<close>

record meshlet =
  vertices :: "vertex list"
  indices :: "int list"
  cone :: "real list"

subsection \<open>Slicing\<close>

text \<open>
  \<open>xs[:k]\<close> in Python and numpy: the first \<open>k\<close> elements when \<open>k \<ge> 0\<close> (all of them when
  there are fewer), and all but the last \<open>-k\<close> elements when \<open>k < 0\<close> (none when there are
  fewer). It never raises.
\<close>

definition py_slice_to :: "'a list \<Rightarrow> int \<Rightarrow> 'a list" where
  "py_slice_to xs k =
     (if k < 0 then take (nat (int (length xs) + k)) xs else take (nat k) xs)"

subsection \<open>The printed line\<close>

fun show_nat :: "nat \<Rightarrow> string" where
  "show_nat n =
     (if n < 10 then [char_of (48 + n)]
      else show_nat (n div 10) @ [char_of (48 + n mod 10)])"

definition progress_message :: "vertex list \<Rightarrow> int list \<Rightarrow> string" where
  "progress_message verts ixs =
     ''OMNI Build Tool: Generating meshlets for '' @ show_nat (length verts) @
     '' vertices and '' @ show_nat (length ixs) @ '' indices...''"

subsection \<open>The function\<close>

definition dummy_meshlet :: "vertex list \<Rightarrow> int list \<Rightarrow> int \<Rightarrow> int \<Rightarrow> meshlet" where
  "dummy_meshlet verts ixs max_vertices max_triangles =
     \<lparr> vertices = py_slice_to verts max_vertices,
       indices = py_slice_to ixs (max_triangles * 3),
       cone = [0, 1, 0, 1 / 2] \<rparr>"

text \<open>The value returned: the list \<open>meshlets\<close>, empty at first, after the one append.\<close>

definition generate_meshlets :: "vertex list \<Rightarrow> int list \<Rightarrow> int \<Rightarrow> int \<Rightarrow> meshlet list" where
  "generate_meshlets verts ixs max_vertices max_triangles =
     (let meshlets = [];
          meshlets = meshlets @ [dummy_meshlet verts ixs max_vertices max_triangles]
      in meshlets)"

text \<open>
  A call as its caller observes it: the outcome, and the lines on standard output. The body
  holds no \<open>raise\<close> and no check, and slicing, \<open>len\<close> and \<open>tolist\<close> cannot fail on arrays, so
  the outcome is always a normal return. The two error names are those of the specification's
  error taxonomy; no path of the source produces them.
\<close>

datatype error = InvalidInput | InvalidConfig

definition run_generate_meshlets ::
  "vertex list \<Rightarrow> int list \<Rightarrow> int \<Rightarrow> int \<Rightarrow> string list \<Rightarrow> (error + meshlet list) \<times> string list" where
  "run_generate_meshlets verts ixs max_vertices max_triangles out =
     (let out = out @ [progress_message verts ixs]
      in (Inr (generate_meshlets verts ixs max_vertices max_triangles), out))"

subsection \<open>Vocabulary of the properties\<close>

text \<open>The flat index buffer read as triangles, three indices at a time.\<close>

fun triangles_of :: "int list \<Rightarrow> (int \<times> int \<times> int) list" where
  "triangles_of (a # b # c # rest) = (a, b, c) # triangles_of rest"
| "triangles_of _ = []"

text \<open>
  The triangles of a meshlet set. The \<open>"indices"\<close> of a meshlet are a slice of the input index
  buffer, so they already are global vertex indices: mapping back is the identity.
\<close>

definition meshlet_triangles :: "meshlet list \<Rightarrow> (int \<times> int \<times> int) list" where
  "meshlet_triangles ms = concat (map (\<lambda>m. triangles_of (indices m)) ms)"

text \<open>A valid mesh: the index count is a multiple of 3 and every index is in range.\<close>

definition valid_mesh :: "vertex list \<Rightarrow> int list \<Rightarrow> bool" where
  "valid_mesh verts ixs \<longleftrightarrow>
     length ixs mod 3 = 0 \<and> list_all (\<lambda>i. 0 \<le> i \<and> i < int (length verts)) ixs"

text \<open>A malformed input, as the error taxonomy lists it.\<close>

definition malformed :: "vertex list \<Rightarrow> int list \<Rightarrow> bool" where
  "malformed verts ixs \<longleftrightarrow>
     list_ex (\<lambda>i. i \<ge> int (length verts)) ixs \<or> length ixs mod 3 \<noteq> 0 \<or> verts = [] \<or> ixs = []"

definition valid_config :: "int \<Rightarrow> int \<Rightarrow> bool" where
  "valid_config max_vertices max_triangles \<longleftrightarrow> 3 \<le> max_vertices \<and> 1 \<le> max_triangles"

definition respects_caps :: "int \<Rightarrow> int \<Rightarrow> meshlet \<Rightarrow> bool" where
  "respects_caps max_vertices max_triangles m \<longleftrightarrow>
     int (length (vertices m)) \<le> max_vertices \<and>
     real (length (indices m)) / 3 \<le> real_of_int max_triangles"

definition local_indices_valid :: "meshlet \<Rightarrow> bool" where
  "local_indices_valid m \<longleftrightarrow> list_all (\<lambda>i. i < int (length (vertices m))) (indices m)"



definition cutoff_cosine :: "meshlet \<Rightarrow> real" where
  "cutoff_cosine m = cone m ! 3"













section \<open>Basic facts\<close>

lemma length_py_slice_to_nonneg: "0 \<le> k \<Longrightarrow> int (length (py_slice_to xs k)) \<le> k"
  by (simp add: py_slice_to_def)

lemma py_slice_to_all: "int (length xs) \<le> k \<Longrightarrow> py_slice_to xs k = xs"
  by (simp add: py_slice_to_def)

lemma set_py_slice_to: "set (py_slice_to xs k) \<subseteq> set xs"
  by (simp add: py_slice_to_def set_take_subset)

lemma generate_meshlets_eq:
  "generate_meshlets verts ixs mv mt = [dummy_meshlet verts ixs mv mt]"
  by (simp add: generate_meshlets_def)




section \<open>Coverage\<close>

text \<open>
  Two triangles under a cap of one triangle per meshlet: the mesh and the configuration are
  valid, and the second triangle \<open>(1, 2, 3)\<close> is cut off by the slice, so the triangles of the
  meshlet set are not those of the input.
\<close>

theorem coverage_counterexample:
  "valid_mesh [[0,0,0],[1,0,0],[0,1,0],[1,1,0]] [0,1,2,1,2,3] \<and> valid_config 64 1 \<and>
   mset (meshlet_triangles
          (generate_meshlets [[0,0,0],[1,0,0],[0,1,0],[1,1,0]] [0,1,2,1,2,3] 64 1))
     \<noteq> mset (triangles_of [0,1,2,1,2,3])"
  by (simp add: valid_mesh_def valid_config_def meshlet_triangles_def generate_meshlets_eq
      dummy_meshlet_def py_slice_to_def)

text \<open>
  C1, amended: when the index buffer has at most \<open>3 * max_triangles\<close> entries, the triangles
  of the meshlet set returned by \<open>generate_meshlets\<close> are the input triangles, each once and
  in the input's order; so none is omitted and none duplicated.
\<close>

theorem coverage_within_cap:
  "int (length ixs) \<le> 3 * mt \<Longrightarrow>
   meshlet_triangles (generate_meshlets verts ixs mv mt) = triangles_of ixs"
  by (simp add: meshlet_triangles_def generate_meshlets_eq dummy_meshlet_def py_slice_to_all
      mult.commute)

theorem coverage_within_cap_witness:
  "int (length [0,1,2,1,2,3::int]) \<le> 3 * 2 \<and>
   meshlet_triangles (generate_meshlets [[0,0,0],[1,0,0],[0,1,0],[1,1,0]] [0,1,2,1,2,3] 64 2)
     = [(0,1,2),(1,2,3)]"
  using coverage_within_cap [of "[0,1,2,1,2,3]" 2 "[[0,0,0],[1,0,0],[0,1,0],[1,1,0]]" 64]
  by simp

section \<open>Caps\<close>

text \<open>
  A negative cap is a slice that drops from the end: with \<open>max_vertices = -1\<close> the meshlet
  of a three-vertex mesh keeps two vertices, which is more than \<open>-1\<close>.
\<close>

theorem cap_respect_counterexample:
  "\<not> list_all (respects_caps (-1) 126)
       (generate_meshlets [[0,0,0],[1,0,0],[0,1,0]] [0,1,2] (-1) 126)"
  by (simp add: respects_caps_def generate_meshlets_eq dummy_meshlet_def py_slice_to_def)

text \<open>
  C2, amended: for every input and every configuration with \<open>max_vertices \<ge> 0\<close> and
  \<open>max_triangles \<ge> 0\<close>, every meshlet produced by \<open>generate_meshlets\<close> has
  \<open>len(vertices) \<le> max_vertices\<close> and \<open>len(indices) / 3 \<le> max_triangles\<close>.
\<close>

theorem cap_respect_nonneg:
  "0 \<le> mv \<Longrightarrow> 0 \<le> mt \<Longrightarrow> m \<in> set (generate_meshlets verts ixs mv mt) \<Longrightarrow>
   respects_caps mv mt m"
proof -
  assume mv: "0 \<le> mv" and mt: "0 \<le> mt" and m: "m \<in> set (generate_meshlets verts ixs mv mt)"
  from m have m_eq: "m = dummy_meshlet verts ixs mv mt"
    by (simp add: generate_meshlets_eq)
  have v: "int (length (vertices m)) \<le> mv"
    using mv by (simp add: m_eq dummy_meshlet_def length_py_slice_to_nonneg)
  have "int (length (indices m)) \<le> mt * 3"
    using mt by (simp add: m_eq dummy_meshlet_def length_py_slice_to_nonneg)
  then have "real (length (indices m)) \<le> real_of_int (mt * 3)"
    by (metis of_int_le_iff of_int_of_nat_eq)
  then have i: "real (length (indices m)) / 3 \<le> real_of_int mt"
    by simp
  from v i show ?thesis
    by (simp add: respects_caps_def)
qed

theorem cap_respect_nonneg_witness:
  "(0::int) \<le> 2 \<and> (0::int) \<le> 1 \<and>
   dummy_meshlet [[0,0,0],[1,0,0],[0,1,0],[1,1,0]] [0,1,2,1,2,3] 2 1
     \<in> set (generate_meshlets [[0,0,0],[1,0,0],[0,1,0],[1,1,0]] [0,1,2,1,2,3] 2 1) \<and>
   respects_caps 2 1 (dummy_meshlet [[0,0,0],[1,0,0],[0,1,0],[1,1,0]] [0,1,2,1,2,3] 2 1)"
  using cap_respect_nonneg [of 2 1
      "dummy_meshlet [[0,0,0],[1,0,0],[0,1,0],[1,1,0]] [0,1,2,1,2,3] 2 1"
      "[[0,0,0],[1,0,0],[0,1,0],[1,1,0]]" "[0,1,2,1,2,3]"]
  by (simp add: generate_meshlets_eq)

section \<open>Bounds\<close>




section \<open>Configuration and input checks\<close>

text \<open>
  With \<open>max_triangles = 0\<close> the call returns normally: one meshlet, with all the vertices and
  an empty index list.
\<close>

theorem invalid_config_counterexample:
  "\<not> valid_config 64 0 \<and>
   fst (run_generate_meshlets [[0,0,0],[1,0,0],[0,1,0]] [0,1,2] 64 0 []) =
     Inr [\<lparr>vertices = [[0,0,0],[1,0,0],[0,1,0]], indices = [], cone = [0, 1, 0, 1 / 2]\<rparr>]"
  by (simp add: valid_config_def run_generate_meshlets_def generate_meshlets_eq
      dummy_meshlet_def py_slice_to_def)

text \<open>
  C4, amended: \<open>generate_meshlets\<close> does not check its configuration. For every input mesh,
  a call with \<open>max_vertices < 3\<close> or \<open>max_triangles < 1\<close> raises no error and returns one
  meshlet, the slices of the two buffers under those caps.
\<close>

theorem invalid_config_returns:
  "mv < 3 \<or> mt < 1 \<Longrightarrow>
   fst (run_generate_meshlets verts ixs mv mt out) = Inr [dummy_meshlet verts ixs mv mt]"
  by (simp add: run_generate_meshlets_def generate_meshlets_eq)

theorem invalid_config_returns_witness:
  "((2::int) < 3 \<or> (0::int) < 1) \<and>
   fst (run_generate_meshlets [[0,0,0],[1,0,0],[0,1,0]] [0,1,2] 2 0 []) =
     Inr [\<lparr>vertices = [[0,0,0],[1,0,0]], indices = [], cone = [0, 1, 0, 1 / 2]\<rparr>]"
  using invalid_config_returns [of 2 0 "[[0,0,0],[1,0,0],[0,1,0]]" "[0,1,2]" "[]"]
  by (simp add: dummy_meshlet_def py_slice_to_def)

text \<open>
  An index buffer of four entries, the last one out of range, over three vertices: the input
  is malformed and the call returns normally, the out-of-range index copied into the meshlet.
\<close>

theorem malformed_input_counterexample:
  "malformed [[0,0,0],[1,0,0],[0,1,0]] [0,1,2,7] \<and>
   fst (run_generate_meshlets [[0,0,0],[1,0,0],[0,1,0]] [0,1,2,7] 64 126 []) =
     Inr [\<lparr>vertices = [[0,0,0],[1,0,0],[0,1,0]], indices = [0,1,2,7],
           cone = [0, 1, 0, 1 / 2]\<rparr>]"
  by (simp add: malformed_def run_generate_meshlets_def generate_meshlets_eq
      dummy_meshlet_def py_slice_to_def)

text \<open>
  C5, amended: \<open>generate_meshlets\<close> does not check its input. On every input, malformed or
  valid, it succeeds and returns a meshlet set; it never fails with \<open>InvalidInput\<close>.
\<close>

theorem never_fails:
  "\<exists>ms. fst (run_generate_meshlets verts ixs mv mt out) = Inr ms"
  by (simp add: run_generate_meshlets_def)

section \<open>Local indices\<close>

text \<open>
  Four vertices under a cap of three: the meshlet keeps three vertex rows, and its index
  list, the global indices \<open>[1, 2, 3]\<close>, holds \<open>3\<close>.
\<close>

theorem local_index_counterexample:
  "valid_mesh [[0,0,0],[1,0,0],[0,1,0],[1,1,0]] [1,2,3] \<and> valid_config 3 126 \<and>
   \<not> list_all local_indices_valid
       (generate_meshlets [[0,0,0],[1,0,0],[0,1,0],[1,1,0]] [1,2,3] 3 126)"
  by (simp add: valid_mesh_def valid_config_def local_indices_valid_def generate_meshlets_eq
      dummy_meshlet_def py_slice_to_def)

text \<open>
  C6, amended: for every meshlet produced from a valid input whose vertex count is at most
  \<open>max_vertices\<close>, every index in the meshlet is strictly less than \<open>len(vertices)\<close> of that
  meshlet. (The meshlet then holds the whole vertex buffer, and global and local indices
  coincide.)
\<close>

theorem local_index_untruncated:
  "valid_mesh verts ixs \<Longrightarrow> int (length verts) \<le> mv \<Longrightarrow>
   m \<in> set (generate_meshlets verts ixs mv mt) \<Longrightarrow> local_indices_valid m"
proof -
  assume valid: "valid_mesh verts ixs" and fits: "int (length verts) \<le> mv"
    and m: "m \<in> set (generate_meshlets verts ixs mv mt)"
  from m have m_eq: "m = dummy_meshlet verts ixs mv mt"
    by (simp add: generate_meshlets_eq)
  from fits have v: "vertices m = verts"
    by (simp add: m_eq dummy_meshlet_def py_slice_to_all)
  have "set (indices m) \<subseteq> set ixs"
    by (simp add: m_eq dummy_meshlet_def set_py_slice_to)
  moreover from valid have "\<forall>i \<in> set ixs. i < int (length verts)"
    by (simp add: valid_mesh_def list_all_iff)
  ultimately show ?thesis
    by (auto simp add: local_indices_valid_def list_all_iff v)
qed

theorem local_index_untruncated_witness:
  "valid_mesh [[0,0,0],[1,0,0],[0,1,0],[1,1,0]] [1,2,3] \<and>
   int (length [[0,0,0],[1,0,0],[0,1,0],[1,1,0::real]]) \<le> 4 \<and>
   dummy_meshlet [[0,0,0],[1,0,0],[0,1,0],[1,1,0]] [1,2,3] 4 126
     \<in> set (generate_meshlets [[0,0,0],[1,0,0],[0,1,0],[1,1,0]] [1,2,3] 4 126) \<and>
   local_indices_valid (dummy_meshlet [[0,0,0],[1,0,0],[0,1,0],[1,1,0]] [1,2,3] 4 126)"
  using local_index_untruncated [of "[[0,0,0],[1,0,0],[0,1,0],[1,1,0]]" "[1,2,3]" 4
      "dummy_meshlet [[0,0,0],[1,0,0],[0,1,0],[1,1,0]] [1,2,3] 4 126" 126]
  by (simp add: valid_mesh_def generate_meshlets_eq)

section \<open>Determinism\<close>

text \<open>
  C7: two runs of \<open>generate_meshlets\<close> on the same buffers and the same configuration return
  the same meshlet set, in order and contents, and print the same line, whatever had been
  printed before each run.
\<close>

theorem deterministic:
  "fst (run_generate_meshlets verts ixs mv mt out1) =
   fst (run_generate_meshlets verts ixs mv mt out2) \<and>
   drop (length out1) (snd (run_generate_meshlets verts ixs mv mt out1)) =
   drop (length out2) (snd (run_generate_meshlets verts ixs mv mt out2))"
  by (simp add: run_generate_meshlets_def)

section \<open>The single triangle\<close>

text \<open>The cutoff of the one meshlet of a single triangle is \<open>0.5\<close>, not \<open>1.0\<close>.\<close>

theorem single_triangle_counterexample:
  "map cutoff_cosine (generate_meshlets [[0,0,0],[1,0,0],[0,1,0]] [0,1,2] 64 126) \<noteq> [1]"
  by (simp add: generate_meshlets_eq dummy_meshlet_def cutoff_cosine_def)

text \<open>
  C8, amended: for three vertices and the one triangle \<open>[0, 1, 2]\<close>, under
  \<open>max_vertices = 64\<close> and \<open>max_triangles = 126\<close>, \<open>generate_meshlets\<close> returns exactly one
  meshlet, whose vertices are the three input vertex rows, whose indices are the flat list
  \<open>[0, 1, 2]\<close>, and whose cone is \<open>[0, 1, 0, 0.5]\<close>: the cutoff is \<open>0.5\<close>.
\<close>

theorem single_triangle:
  "generate_meshlets [a, b, c] [0, 1, 2] 64 126 =
     [\<lparr>vertices = [a, b, c], indices = [0, 1, 2], cone = [0, 1, 0, 1 / 2]\<rparr>]"
  by (simp add: generate_meshlets_eq dummy_meshlet_def py_slice_to_def)

section \<open>Shape of the output\<close>

text \<open>
  C9: for every vertex buffer, index buffer and configuration, empty buffers and
  \<open>max_triangles = 0\<close> included, \<open>generate_meshlets\<close> returns a list of exactly one meshlet.
\<close>

theorem one_meshlet:
  "length (generate_meshlets verts ixs mv mt) = 1"
  by (simp add: generate_meshlets_eq)

text \<open>
  C10: the cone of the meshlet returned by \<open>generate_meshlets\<close> is the constant
  \<open>[0, 1, 0, 0.5]\<close> for every geometry and configuration.
\<close>

theorem cone_constant:
  "map cone (generate_meshlets verts ixs mv mt) = [[0, 1, 0, 1 / 2]]"
  by (simp add: generate_meshlets_eq dummy_meshlet_def)

end
